theory Spec2Isabelle
  imports Main "HOL-Library.AList" "HOL-Library.Word"
begin

section \<open>Routes and the path matcher\<close>

text \<open>
  Strings are modelled as \<open>string\<close>, read as the sequence of runes that Go's
  \<^verbatim>\<open>for _, c := range s\<close> yields; for well-formed UTF-8 text that sequence is the
  string itself, and the two ASCII delimiters \<open>/\<close> and \<open>:\<close> are single elements of it.
\<close>

record Route =
  Method :: string
  Pattern :: string
  Params :: "string list"
  Body :: string

text \<open>The loop of \<^verbatim>\<open>splitPath\<close>: \<open>current\<close> is the segment being read, \<open>parts\<close> the
  segments finished so far.\<close>

fun splitPath_loop :: "string \<Rightarrow> string \<Rightarrow> string list \<Rightarrow> string list" where
  "splitPath_loop [] current parts = (if current \<noteq> [] then parts @ [current] else parts)"
| "splitPath_loop (c # cs) current parts =
     (if c = CHR ''/''
      then (if current \<noteq> [] then splitPath_loop cs [] (parts @ [current])
            else splitPath_loop cs current parts)
      else splitPath_loop cs (current @ [c]) parts)"

definition splitPath :: "string \<Rightarrow> string list" where
  "splitPath path = splitPath_loop path [] []"

text \<open>\<^verbatim>\<open>len(pp) > 0 && pp[0] == ':'\<close>, and the name \<^verbatim>\<open>pp[1:]\<close> of such a segment.\<close>

definition is_param :: "string \<Rightarrow> bool" where
  "is_param pp = (case pp of [] \<Rightarrow> False | c # name \<Rightarrow> c = CHR '':'')"

definition param_name :: "string \<Rightarrow> string" where
  "param_name pp = drop 1 pp"

definition extractParams :: "string \<Rightarrow> string list" where
  "extractParams pattern = map param_name (filter is_param (splitPath pattern))"

text \<open>
  The loop of \<^verbatim>\<open>matchRoute\<close> over the pattern segments, with the path segment of the
  same index beside each. An early \<^verbatim>\<open>return false, nil\<close> is \<open>None\<close>. The source only
  enters the loop with as many path segments as pattern segments; the equation for a
  missing path segment is the index-out-of-range the length check rules out.
\<close>

fun matchRoute_loop ::
  "string list \<Rightarrow> string list \<Rightarrow> (string \<rightharpoonup> string) \<Rightarrow> (string \<rightharpoonup> string) option" where
  "matchRoute_loop [] pathParts params = Some params"
| "matchRoute_loop (pp # pps) [] params = None"
| "matchRoute_loop (pp # pps) (ps # pss) params =
     (if is_param pp then matchRoute_loop pps pss (params(param_name pp \<mapsto> ps))
      else if pp \<noteq> ps then None
      else matchRoute_loop pps pss params)"

definition matchRoute :: "Route \<Rightarrow> string \<Rightarrow> string \<Rightarrow> (string \<rightharpoonup> string) option" where
  "matchRoute route method path =
     (if Method route \<noteq> method then None
      else let patternParts = splitPath (Pattern route); pathParts = splitPath path
           in if length patternParts \<noteq> length pathParts then None
              else matchRoute_loop patternParts pathParts Map.empty)"

text \<open>The scan of \<^verbatim>\<open>createHandler\<close> over the route slice: the first route that matches
  is served and the handler returns; \<open>None\<close> is the fall-through to \<^verbatim>\<open>http.NotFound\<close>.\<close>

fun first_match :: "Route list \<Rightarrow> string \<Rightarrow> string \<Rightarrow> (Route \<times> (string \<rightharpoonup> string)) option" where
  "first_match [] method path = None"
| "first_match (route # routes) method path =
     (case matchRoute route method path of
        Some params \<Rightarrow> Some (route, params)
      | None \<Rightarrow> first_match routes method path)"

text \<open>\<^verbatim>\<open>AddRoute\<close>: replace the first route with the same method and pattern in place,
  else append.\<close>

fun AddRoute_loop :: "Route \<Rightarrow> Route list \<Rightarrow> Route list" where
  "AddRoute_loop newRoute [] = [newRoute]"
| "AddRoute_loop newRoute (r # rs) =
     (if Method r = Method newRoute \<and> Pattern r = Pattern newRoute then newRoute # rs
      else r # AddRoute_loop newRoute rs)"

definition mkRoute :: "string \<Rightarrow> string \<Rightarrow> string \<Rightarrow> Route" where
  "mkRoute method pattern body =
     \<lparr>Method = method, Pattern = pattern, Params = extractParams pattern, Body = body\<rparr>"

subsection \<open>The matcher in the words of the specification\<close>

text \<open>Splitting at every delimiter (an input without delimiter is one segment), then
  dropping the empty segments.\<close>

fun split_at :: "char \<Rightarrow> string \<Rightarrow> string list" where
  "split_at d [] = [[]]"
| "split_at d (c # cs) =
     (if c = d then [] # split_at d cs
      else (case split_at d cs of [] \<Rightarrow> [[c]] | x # xs \<Rightarrow> (c # x) # xs))"

definition spec_segments :: "string \<Rightarrow> string list" where
  "spec_segments path = filter (\<lambda>seg. seg \<noteq> []) (split_at (CHR ''/'') path)"


section \<open>Requests, response sinks and request contexts\<close>

text \<open>
  The response sink is an \<^verbatim>\<open>http.ResponseWriter\<close>. It is modelled by the calls the
  program makes on it, in program order: \<^verbatim>\<open>Header().Set(k, v)\<close>, \<^verbatim>\<open>WriteHeader(code)\<close>,
  \<^verbatim>\<open>Write(bytes)\<close>, \<^verbatim>\<open>Flush()\<close> and \<^verbatim>\<open>http.Error(w, msg, code)\<close>; what the
  transport makes of the calls is the library's business. \<open>is_Flusher\<close> says whether the
  writer implements \<^verbatim>\<open>http.Flusher\<close>.
\<close>

datatype wcall =
    Header_Set string string
  | WriteHeader int
  | Write string
  | Flush
  | http_Error string int

record ResponseWriter =
  calls :: "wcall list"
  is_Flusher :: bool

text \<open>Of \<^verbatim>\<open>*http.Request\<close>, the parts the modelled code reads: \<^verbatim>\<open>Method\<close>, \<^verbatim>\<open>URL.Path\<close>
  and the parsed query \<^verbatim>\<open>URL.Query()\<close>, a \<^verbatim>\<open>url.Values\<close> (each key with its values in
  order of appearance).\<close>

record Request =
  ReqMethod :: string
  URLPath :: string
  URLQuery :: "string \<rightharpoonup> string list"

text \<open>\<^verbatim>\<open>RequestContext\<close>. \<open>CtxParams\<close> is its field \<^verbatim>\<open>Params\<close>; \<open>Headers\<close> is a
  \<^verbatim>\<open>sync.Map\<close>, kept as an association list with unique keys whose order stands for the
  unspecified order of \<^verbatim>\<open>Range\<close>. The lock \<^verbatim>\<open>mu\<close> has no counterpart: every operation
  below runs to completion.\<close>

record RequestContext =
  Writer :: ResponseWriter
  Request :: Request
  CtxParams :: "string \<rightharpoonup> string"
  Status :: int
  Headers :: "(string \<times> string) list"
  Written :: bool

text \<open>\<^verbatim>\<open>Connection\<close>. \<open>Ctx\<close> is the address of the owning context, \<open>Done\<close> tells whether
  the channel \<^verbatim>\<open>Done\<close> has been closed.\<close>

record Connection =
  ID :: string
  Name :: string
  Ctx :: nat
  Opened :: nat
  Done :: bool
  OnClose :: string

text \<open>
  \<^verbatim>\<open>ServerState\<close>, with the two kinds of objects the program shares by pointer kept in
  explicit stores: \<open>ctx_heap\<close> for request contexts and \<open>conn_heap\<close> for connections,
  each with its next free address. \<open>connections\<close> is the \<^verbatim>\<open>sync.Map\<close> from handles to
  connection pointers, again as an association list with unique keys.
\<close>

record ServerState =
  routes :: "Route list"
  reqCtx :: "nat option"
  connections :: "(string \<times> nat) list"
  ctx_heap :: "nat \<Rightarrow> RequestContext"
  ctx_next :: nat
  conn_heap :: "nat \<Rightarrow> Connection"
  conn_next :: nat

definition zero_ctx :: RequestContext where
  "zero_ctx = \<lparr>Writer = \<lparr>calls = [], is_Flusher = False\<rparr>,
               Request = \<lparr>ReqMethod = [], URLPath = [], URLQuery = Map.empty\<rparr>,
               CtxParams = Map.empty, Status = 0, Headers = [], Written = False\<rparr>"

definition zero_conn :: Connection where
  "zero_conn = \<lparr>ID = [], Name = [], Ctx = 0, Opened = 0, Done = False, OnClose = []\<rparr>"

definition NewServerState :: ServerState where
  "NewServerState = \<lparr>routes = [], reqCtx = None, connections = [],
                      ctx_heap = (\<lambda>_. zero_ctx), ctx_next = 0,
                      conn_heap = (\<lambda>_. zero_conn), conn_next = 0\<rparr>"

definition AddRoute :: "string \<Rightarrow> string \<Rightarrow> string \<Rightarrow> ServerState \<Rightarrow> ServerState" where
  "AddRoute method pattern body s =
     s\<lparr>routes := AddRoute_loop (mkRoute method pattern body) (routes s)\<rparr>"

definition GetRoutes :: "ServerState \<Rightarrow> Route list" where
  "GetRoutes s = routes s"

definition SetRequestContext :: "nat option \<Rightarrow> ServerState \<Rightarrow> ServerState" where
  "SetRequestContext ctx s = s\<lparr>reqCtx := ctx\<rparr>"

definition GetRequestContext :: "ServerState \<Rightarrow> nat option" where
  "GetRequestContext s = reqCtx s"

section \<open>The connection registry\<close>

datatype error = NotInRequestContext | UnknownConnection string

definition error_text :: "error \<Rightarrow> string" where
  "error_text e = (case e of NotInRequestContext \<Rightarrow> ''not in request context''
                   | UnknownConnection handle \<Rightarrow> ''unknown connection: '' @ handle)"

text \<open>\<^verbatim>\<open>generateID\<close>: eight bytes from \<^verbatim>\<open>crypto/rand\<close>, an input of the model, in
  lower-case hexadecimal behind the prefix \<open>conn-\<close>.\<close>

definition hexdigit :: "nat \<Rightarrow> char" where
  "hexdigit n = ''0123456789abcdef'' ! (n mod 16)"

definition EncodeToString :: "8 word list \<Rightarrow> string" where
  "EncodeToString src = concat (map (\<lambda>v. [hexdigit (unat v div 16), hexdigit (unat v mod 16)]) src)"

definition generateID :: "8 word list \<Rightarrow> string" where
  "generateID b = ''conn-'' @ EncodeToString b"

text \<open>\<^verbatim>\<open>HoldConnection\<close>; \<open>b\<close> are the random bytes and \<open>now\<close> the clock reading.\<close>

definition HoldConnection ::
  "8 word list \<Rightarrow> nat \<Rightarrow> string \<Rightarrow> ServerState \<Rightarrow> (error + nat) \<times> ServerState" where
  "HoldConnection b now name s =
     (case reqCtx s of
        None \<Rightarrow> (Inl NotInRequestContext, s)
      | Some c \<Rightarrow>
          let id = generateID b;
              conn = conn_next s;
              s1 = s\<lparr>conn_heap := (conn_heap s)
                       (conn := \<lparr>ID = id, Name = name, Ctx = c, Opened = now,
                                 Done = False, OnClose = []\<rparr>),
                     conn_next := Suc conn\<rparr>;
              s2 = s1\<lparr>connections := AList.update id conn (connections s1)\<rparr>;
              s3 = (if name \<noteq> [] then s2\<lparr>connections := AList.update name conn (connections s2)\<rparr>
                    else s2)
          in (Inr conn, s3))"

definition GetConnection :: "ServerState \<Rightarrow> string \<Rightarrow> nat option" where
  "GetConnection s handle = map_of (connections s) handle"

text \<open>\<^verbatim>\<open>CloseConnection\<close>; the result is Go's \<^verbatim>\<open>error\<close>, \<open>None\<close> for \<^verbatim>\<open>nil\<close>.\<close>

definition CloseConnection :: "string \<Rightarrow> ServerState \<Rightarrow> error option \<times> ServerState" where
  "CloseConnection handle s =
     (case map_of (connections s) handle of
        None \<Rightarrow> (Some (UnknownConnection handle), s)
      | Some conn \<Rightarrow>
          let c = conn_heap s conn;
              s1 = s\<lparr>conn_heap := (conn_heap s)(conn := c\<lparr>Done := True\<rparr>)\<rparr>;
              s2 = s1\<lparr>connections := AList.delete (ID c) (connections s1)\<rparr>;
              s3 = (if Name c \<noteq> [] then s2\<lparr>connections := AList.delete (Name c) (connections s2)\<rparr>
                    else s2)
          in (None, s3))"

text \<open>\<^verbatim>\<open>ListConnections\<close>: the \<^verbatim>\<open>Range\<close> over the registry with the set \<open>seen\<close> of
  connection ids already listed.\<close>

fun ListConnections_loop ::
  "(nat \<Rightarrow> Connection) \<Rightarrow> (string \<times> nat) list \<Rightarrow> string list \<Rightarrow> string list \<Rightarrow> string list" where
  "ListConnections_loop h [] seen handles = handles"
| "ListConnections_loop h ((key, conn) # rest) seen handles =
     (if ID (h conn) \<notin> set seen
      then ListConnections_loop h rest (ID (h conn) # seen)
             (handles @ [if Name (h conn) \<noteq> [] then Name (h conn) else ID (h conn)])
      else ListConnections_loop h rest seen handles)"

definition ListConnections :: "ServerState \<Rightarrow> string list" where
  "ListConnections s = ListConnections_loop (conn_heap s) (connections s) [] []"

definition findConnectionByContext :: "ServerState \<Rightarrow> nat \<Rightarrow> nat option" where
  "findConnectionByContext s ctx =
     map_option snd (find (\<lambda>(key, conn). Ctx (conn_heap s conn) = ctx) (connections s))"


section \<open>Host commands\<close>

text \<open>A \<^verbatim>\<open>feather.Object\<close> is what the commands see of it: its \<^verbatim>\<open>String()\<close> and the
  outcome of \<^verbatim>\<open>Int()\<close> (\<open>None\<close> when that returns an error). A \<^verbatim>\<open>feather.Result\<close> is
  \<^verbatim>\<open>OK\<close> of a string or of a list of strings, or an \<^verbatim>\<open>Error\<close> with its message.\<close>

datatype obj = Obj (String_of: string) (Int_of: "int option")

datatype result = OK string | OK_list "string list" | Error string

text \<open>
  The opening of \<^verbatim>\<open>respond\<close>, \<^verbatim>\<open>status\<close>, \<^verbatim>\<open>header\<close> and \<^verbatim>\<open>flush\<close>: with
  \<^verbatim>\<open>-to HANDLE\<close> the context of the connection behind the handle and argument index 2,
  else the ambient context and index 0. \<open>Inl\<close> is the early \<^verbatim>\<open>return\<close>.
\<close>

definition target_ctx :: "string \<Rightarrow> ServerState \<Rightarrow> obj list \<Rightarrow> result + (nat \<times> nat)" where
  "target_ctx cmd s args =
     (if length args \<ge> 2 \<and> String_of (args ! 0) = ''-to''
      then (case GetConnection s (String_of (args ! 1)) of
              None \<Rightarrow> Inl (OK [])
            | Some conn \<Rightarrow> Inr (Ctx (conn_heap s conn), 2))
      else (case GetRequestContext s of
              None \<Rightarrow> Inl (Error (cmd @ '': not in request context''))
            | Some ctx \<Rightarrow> Inr (ctx, 0)))"

definition send :: "wcall list \<Rightarrow> RequestContext \<Rightarrow> RequestContext" where
  "send cs c = c\<lparr>Writer := (Writer c)\<lparr>calls := calls (Writer c) @ cs\<rparr>\<rparr>"

text \<open>The block \<^verbatim>\<open>if !ctx.Written { ... }\<close> of \<^verbatim>\<open>respond\<close>.\<close>

definition commit :: "RequestContext \<Rightarrow> RequestContext" where
  "commit c =
     (if \<not> Written c
      then (send (map (\<lambda>(k, v). Header_Set k v) (Headers c)
                  @ (if Status c \<noteq> 0 then [WriteHeader (Status c)] else [])) c)
             \<lparr>Written := True\<rparr>
      else c)"

definition respond :: "ServerState \<Rightarrow> obj list \<Rightarrow> result \<times> ServerState" where
  \<open>respond s args =
     (case target_ctx ''respond'' s args of
        Inl res \<Rightarrow> (res, s)
      | Inr (ctx, bodyIdx) \<Rightarrow>
          if length args \<le> bodyIdx
          then (Error ''wrong # args: should be "respond ?-to handle? body"'', s)
          else let body = String_of (args ! bodyIdx)
               in (OK [], s\<lparr>ctx_heap := (ctx_heap s)
                                (ctx := send [Write body] (commit (ctx_heap s ctx)))\<rparr>))\<close>

definition status :: "ServerState \<Rightarrow> obj list \<Rightarrow> result \<times> ServerState" where
  \<open>status s args =
     (case target_ctx ''status'' s args of
        Inl res \<Rightarrow> (res, s)
      | Inr (ctx, codeIdx) \<Rightarrow>
          if length args \<le> codeIdx
          then (Error ''wrong # args: should be "status ?-to handle? code"'', s)
          else (case Int_of (args ! codeIdx) of
                  None \<Rightarrow> (Error (''status: expected integer, got '' @ String_of (args ! codeIdx)), s)
                | Some code \<Rightarrow>
                    (OK [], s\<lparr>ctx_heap := (ctx_heap s)(ctx := (ctx_heap s ctx)\<lparr>Status := code\<rparr>)\<rparr>)))\<close>

definition header :: "ServerState \<Rightarrow> obj list \<Rightarrow> result \<times> ServerState" where
  \<open>header s args =
     (case target_ctx ''header'' s args of
        Inl res \<Rightarrow> (res, s)
      | Inr (ctx, nameIdx) \<Rightarrow>
          if length args < nameIdx + 2
          then (Error ''wrong # args: should be "header ?-to handle? name value"'', s)
          else (OK [], s\<lparr>ctx_heap := (ctx_heap s)
                  (ctx := (ctx_heap s ctx)
                     \<lparr>Headers := AList.update (String_of (args ! nameIdx))
                                   (String_of (args ! (nameIdx + 1))) (Headers (ctx_heap s ctx))\<rparr>)\<rparr>))\<close>

definition flush :: "ServerState \<Rightarrow> obj list \<Rightarrow> result \<times> ServerState" where
  "flush s args =
     (case target_ctx ''flush'' s args of
        Inl res \<Rightarrow> (res, s)
      | Inr (ctx, _) \<Rightarrow>
          (OK [], if is_Flusher (Writer (ctx_heap s ctx))
                  then s\<lparr>ctx_heap := (ctx_heap s)(ctx := send [Flush] (ctx_heap s ctx))\<rparr>
                  else s))"

definition param :: "ServerState \<Rightarrow> obj list \<Rightarrow> result \<times> ServerState" where
  \<open>param s args =
     (case GetRequestContext s of
        None \<Rightarrow> (Error ''param: not in request context'', s)
      | Some ctx \<Rightarrow>
          if length args < 1 then (Error ''wrong # args: should be "param name"'', s)
          else (case CtxParams (ctx_heap s ctx) (String_of (args ! 0)) of
                  Some val \<Rightarrow> (OK val, s)
                | None \<Rightarrow> (OK [], s)))\<close>

text \<open>\<^verbatim>\<open>url.Values.Get\<close>: the first value of the key, the empty string when there is
  none.\<close>

definition Values_Get :: "(string \<rightharpoonup> string list) \<Rightarrow> string \<Rightarrow> string" where
  "Values_Get v key = (case v key of None \<Rightarrow> [] | Some [] \<Rightarrow> [] | Some (x # _) \<Rightarrow> x)"

definition query :: "ServerState \<Rightarrow> obj list \<Rightarrow> result \<times> ServerState" where
  \<open>query s args =
     (case GetRequestContext s of
        None \<Rightarrow> (Error ''query: not in request context'', s)
      | Some ctx \<Rightarrow>
          if length args < 1 then (Error ''wrong # args: should be "query name ?default?"'', s)
          else let name = String_of (args ! 0);
                   val = Values_Get (URLQuery (Request (ctx_heap s ctx))) name
               in (OK (if val = [] \<and> length args > 1 then String_of (args ! 1) else val), s))\<close>


text \<open>The subcommands of \<^verbatim>\<open>connection\<close> modelled here, each on the whole argument list
  (the subcommand name is \<open>args ! 0\<close>), and \<^verbatim>\<open>connections\<close>.\<close>

definition connection_hold ::
  "8 word list \<Rightarrow> nat \<Rightarrow> ServerState \<Rightarrow> obj list \<Rightarrow> result \<times> ServerState" where
  "connection_hold b now s args =
     (let name = (if length args \<ge> 3 \<and> String_of (args ! 1) = ''-as''
                  then String_of (args ! 2) else [])
      in case HoldConnection b now name s of
           (Inl err, s') \<Rightarrow> (Error (''connection hold: '' @ error_text err), s')
         | (Inr conn, s') \<Rightarrow>
             (if name \<noteq> [] then OK name else OK (ID (conn_heap s' conn)), s'))"



definition connections_cmd :: "ServerState \<Rightarrow> result \<times> ServerState" where
  "connections_cmd s = (OK_list (ListConnections s), s)"


section \<open>The dispatcher\<close>

text \<open>
  \<^verbatim>\<open>state.Eval(script)\<close> hands the script to the interpreter worker and waits for the
  reply. The scripting engine is outside the repository, so the handler takes the
  evaluation as a parameter: what running the script does to the server state, and the
  text of the error it ends with, if any.
\<close>

type_synonym eval = "string \<Rightarrow> ServerState \<Rightarrow> string option \<times> ServerState"

text \<open>The outcome of the \<^verbatim>\<open>select\<close> of a held request: \<^verbatim>\<open>conn.Done\<close> was closed, or
  the request's own context was cancelled because the peer went away.\<close>

datatype race = Terminated | Disconnected

text \<open>The calls of one run of the handler, in program order.\<close>

datatype step =
    Step_SetRequestContext "nat option"
  | Step_Eval string
  | Step_http_Error string int
  | Step_findConnectionByContext nat
  | Step_select nat
  | Step_CloseConnection string
  | Step_http_NotFound

text \<open>\<^verbatim>\<open>if err != nil { if !ctx.Written { http.Error(w, err.Error(), 500) } }\<close>; the
  writer \<^verbatim>\<open>w\<close> is the one the context holds.\<close>

definition report_error :: "nat \<Rightarrow> string option \<Rightarrow> ServerState \<Rightarrow> ServerState \<times> step list" where
  "report_error ctx err s =
     (case err of
        None \<Rightarrow> (s, [])
      | Some e \<Rightarrow>
          if \<not> Written (ctx_heap s ctx)
          then (s\<lparr>ctx_heap := (ctx_heap s)(ctx := send [http_Error e 500] (ctx_heap s ctx))\<rparr>,
                [Step_http_Error e 500])
          else (s, []))"

text \<open>
  The block after \<^verbatim>\<open>findConnectionByContext\<close>. While the handler is blocked in
  \<^verbatim>\<open>select\<close> other tasks run; \<open>others\<close> is what they do to the server state in the
  meantime, \<open>outcome\<close> the case the \<^verbatim>\<open>select\<close> takes.
\<close>

definition await_held ::
  "eval \<Rightarrow> (ServerState \<Rightarrow> ServerState) \<Rightarrow> race \<Rightarrow> nat \<Rightarrow> ServerState \<Rightarrow> ServerState \<times> step list" where
  "await_held Eval others outcome ctx s =
     (case findConnectionByContext s ctx of
        None \<Rightarrow> (s, [Step_findConnectionByContext ctx])
      | Some conn \<Rightarrow>
          let s1 = others s
          in (case outcome of
                Terminated \<Rightarrow> (s1, [Step_findConnectionByContext ctx, Step_select conn])
              | Disconnected \<Rightarrow>
                  let c = conn_heap s1 conn;
                      handle = (if Name c = [] then ID c else Name c);
                      callback = OnClose c @ '' '' @ handle;
                      s2 = (if OnClose c \<noteq> [] then snd (Eval callback s1) else s1);
                      s3 = snd (CloseConnection (ID (conn_heap s2 conn)) s2)
                  in (s3, [Step_findConnectionByContext ctx, Step_select conn]
                          @ (if OnClose c \<noteq> [] then [Step_Eval callback] else [])
                          @ [Step_CloseConnection (ID (conn_heap s2 conn))])))"

text \<open>\<^verbatim>\<open>ctx := &RequestContext{Writer: w, Request: r, Params: params, Status: 200}\<close>,
  allocated at the next free address.\<close>

definition new_context ::
  "ResponseWriter \<Rightarrow> Request \<Rightarrow> (string \<rightharpoonup> string) \<Rightarrow> ServerState \<Rightarrow> ServerState" where
  "new_context w r params s =
     s\<lparr>ctx_heap := (ctx_heap s)
          (ctx_next s := \<lparr>Writer = w, Request = r, CtxParams = params, Status = 200,
                          Headers = [], Written = False\<rparr>),
       ctx_next := Suc (ctx_next s)\<rparr>"

text \<open>The handler from \<^verbatim>\<open>routes := state.GetRoutes()\<close> on, for the writer \<open>w\<close> and the
  request \<open>r\<close>.\<close>

definition serve_routes ::
  "eval \<Rightarrow> (ServerState \<Rightarrow> ServerState) \<Rightarrow> race \<Rightarrow> ResponseWriter \<Rightarrow> Request \<Rightarrow> ServerState
     \<Rightarrow> ServerState \<times> step list" where
  "serve_routes Eval others outcome w r s =
     (case first_match (GetRoutes s) (ReqMethod r) (URLPath r) of
        None \<Rightarrow> (s, [Step_http_NotFound])
      | Some (route, params) \<Rightarrow>
          let ctx = ctx_next s;
              s1 = new_context w r params s;
              s2 = SetRequestContext (Some ctx) s1;
              (err, s3) = Eval (Body route) s2;
              (s4, t4) = report_error ctx err s3;
              (s5, t5) = await_held Eval others outcome ctx s4
          in (SetRequestContext None s5,
              [Step_SetRequestContext (Some ctx), Step_Eval (Body route)] @ t4 @ t5
              @ [Step_SetRequestContext None]))"

text \<open>\<^verbatim>\<open>createHandler\<close>: the two endpoints of the web console are answered before the
  route table is consulted; their handlers are not part of this development.\<close>

datatype handled = serveReplPage | handleReplEval | Served "ServerState \<times> step list"

definition createHandler ::
  "eval \<Rightarrow> (ServerState \<Rightarrow> ServerState) \<Rightarrow> race \<Rightarrow> ResponseWriter \<Rightarrow> Request \<Rightarrow> ServerState
     \<Rightarrow> handled" where
  "createHandler Eval others outcome w r s =
     (if URLPath r = ''/_repl'' \<and> ReqMethod r = ''GET'' then serveReplPage
      else if URLPath r = ''/_repl/eval'' \<and> ReqMethod r = ''POST'' then handleReplEval
      else Served (serve_routes Eval others outcome w r s))"


section \<open>Reachable states and notions of the specification\<close>

text \<open>A route's key in the table.\<close>

definition route_key :: "Route \<Rightarrow> string \<times> string" where
  "route_key r = (Method r, Pattern r)"




text \<open>
  The order of the specification for the ambient context: it is cleared right after the
  script's reply, so no check for a held connection and no wait of the handler comes
  before the clearing.
\<close>

definition is_held_step :: "step \<Rightarrow> bool" where
  "is_held_step e = (case e of Step_findConnectionByContext _ \<Rightarrow> True
                      | Step_select _ \<Rightarrow> True | _ \<Rightarrow> False)"

definition spec_cleared_before_held_check :: "step list \<Rightarrow> bool" where
  "spec_cleared_before_held_check tr =
     (Step_SetRequestContext None \<in> set tr \<and>
      list_all (\<lambda>e. \<not> is_held_step e) (takeWhile (\<lambda>e. e \<noteq> Step_SetRequestContext None) tr))"

section \<open>Example states\<close>

text \<open>A net/http writer on which nothing has been called, and a request for
  \<^verbatim>\<open>GET /chat/stream?client=room&tag=\<close>.\<close>

definition fresh_writer :: ResponseWriter where
  "fresh_writer = \<lparr>calls = [], is_Flusher = True\<rparr>"

definition stream_request :: Request where
  "stream_request = \<lparr>ReqMethod = ''GET'', URLPath = ''/chat/stream'',
                      URLQuery = [''client'' \<mapsto> [''room''], ''tag'' \<mapsto> [[]]]\<rparr>"

text \<open>The state in which a route's script starts: a fresh context at address 0,
  installed as the ambient one.\<close>

definition open_state :: ServerState where
  "open_state = SetRequestContext (Some 0) (new_context fresh_writer stream_request Map.empty NewServerState)"

text \<open>Two requests that hold their connection under the same alias, as two clients of
  the chat example with the same name do.\<close>

definition bytes_a :: "8 word list" where
  "bytes_a = [1, 2, 3, 4, 5, 6, 7, 8]"

definition bytes_b :: "8 word list" where
  "bytes_b = [9, 10, 11, 12, 13, 14, 15, 16]"

definition held_once :: ServerState where
  "held_once = snd (HoldConnection bytes_a 0 ''room'' open_state)"

definition held_twice :: ServerState where
  "held_twice =
     snd (HoldConnection bytes_b 1 ''room''
            (SetRequestContext (Some 1) (new_context fresh_writer stream_request Map.empty held_once)))"

text \<open>A route table with one route whose script holds the connection, and an
  evaluation for the scripts of the examples: one holds the connection, one writes and
  then fails, every other script fails at once.\<close>

definition hold_routes :: ServerState where
  "hold_routes = AddRoute ''GET'' ''/chat/stream'' ''connection hold'' NewServerState"

definition example_eval :: eval where
  "example_eval script s =
     (if script = ''connection hold''
      then (None, snd (connection_hold bytes_a 0 s [Obj ''hold'' None]))
      else if script = ''respond partial; boom''
      then (Some ''invalid command name'', snd (respond s [Obj ''partial'' None]))
      else (Some ''invalid command name'', s))"

text \<open>Route tables whose script fails before, and after, its first body write.\<close>

definition boom_routes :: ServerState where
  "boom_routes = AddRoute ''GET'' ''/chat/stream'' ''boom'' NewServerState"

definition partial_routes :: ServerState where
  "partial_routes = AddRoute ''GET'' ''/chat/stream'' ''respond partial; boom'' NewServerState"

text \<open>The context of \<open>open_state\<close> after a first body write, and after a status and a
  header have been set with nothing written yet.\<close>

definition committed_state :: ServerState where
  "committed_state = snd (respond open_state [Obj ''hi'' None])"



section \<open>The route matcher and the route scan\<close>

lemma split_at_ne: "split_at d p \<noteq> []"
  by (induction p) (auto split: list.splits)

lemma splitPath_loop_spec:
  "splitPath_loop p cur parts =
     parts @ filter (\<lambda>s. s \<noteq> [])
               (case split_at (CHR ''/'') p of x # xs \<Rightarrow> (cur @ x) # xs | [] \<Rightarrow> [])"
  apply (induction p arbitrary: cur parts)
   apply simp
  using split_at_ne
  apply (auto split: list.splits)
  done

lemma splitPath_spec: "splitPath p = spec_segments p"
  using split_at_ne[of "CHR ''/''" p] by (auto simp: splitPath_def spec_segments_def splitPath_loop_spec split: list.splits)


lemma matchRoute_loop_all2: "length pat = length pth \<Longrightarrow>
  (\<exists>b. matchRoute_loop pat pth m = Some b) = list_all2 (\<lambda>pp ps. is_param pp \<or> pp = ps) pat pth"
  by (induction pat pth m rule: matchRoute_loop.induct) auto

lemma matchRoute_loop_nth: "length pat = length pth \<Longrightarrow>
  (\<exists>b. matchRoute_loop pat pth m = Some b) = (\<forall>i<length pat. is_param (pat ! i) \<or> pat ! i = pth ! i)"
  by (simp add: matchRoute_loop_all2 list_all2_conv_all_nth)

lemma matchRoute_loop_unbound: "matchRoute_loop pat pth m = Some b \<Longrightarrow>
   \<forall>pp\<in>set pat. is_param pp \<longrightarrow> param_name pp \<noteq> k \<Longrightarrow> b k = m k"
  by (induction pat pth m rule: matchRoute_loop.induct) (auto split: if_splits)

lemma matchRoute_loop_binds: "matchRoute_loop pat pth m = Some b \<Longrightarrow> i < length pat \<Longrightarrow> is_param (pat ! i) \<Longrightarrow>
  \<forall>j. i < j \<and> j < length pat \<and> is_param (pat ! j) \<longrightarrow> param_name (pat ! j) \<noteq> param_name (pat ! i) \<Longrightarrow>
  b (param_name (pat ! i)) = Some (pth ! i)"
proof (induction pat pth m arbitrary: i rule: matchRoute_loop.induct)
  case (1 pathParts params)
  then show ?case by simp
next
  case (2 pp pps params)
  then show ?case by simp
next
  case (3 pp pps ps pss params)
  show ?case
  proof (cases i)
    case 0
    with 3 have run: "matchRoute_loop pps pss (params(param_name pp \<mapsto> ps)) = Some b" by simp
    have "\<forall>q\<in>set pps. is_param q \<longrightarrow> param_name q \<noteq> param_name pp"
    proof (intro ballI impI)
      fix q assume "q \<in> set pps" "is_param q"
      then obtain j where "j < length pps" "pps ! j = q" by (auto simp: in_set_conv_nth)
      with 3(6) 0 \<open>is_param q\<close> show "param_name q \<noteq> param_name pp"
        by (auto dest!: spec[of _ "Suc j"])
    qed
    from matchRoute_loop_unbound[OF run this] 0 show ?thesis by simp
  next
    case (Suc k)
    have later: "\<forall>j. k < j \<and> j < length pps \<and> is_param (pps ! j) \<longrightarrow> param_name (pps ! j) \<noteq> param_name (pps ! k)"
    proof (intro allI impI)
      fix j assume j: "k < j \<and> j < length pps \<and> is_param (pps ! j)"
      with 3(6) Suc have "param_name ((pp # pps) ! Suc j) \<noteq> param_name ((pp # pps) ! i)"
        by (intro 3(6)[rule_format]) auto
      with Suc show "param_name (pps ! j) \<noteq> param_name (pps ! k)" by simp
    qed
    from 3(4,5) Suc have k: "k < length pps" "is_param (pps ! k)" by auto
    show ?thesis
    proof (cases "is_param pp")
      case True
      with 3(3) have "matchRoute_loop pps pss (params(param_name pp \<mapsto> ps)) = Some b" by simp
      from 3(1)[OF True this k later] Suc show ?thesis by simp
    next
      case False
      with 3(3) have eq: "\<not> pp \<noteq> ps" and run: "matchRoute_loop pps pss params = Some b"
        by (auto split: if_splits)
      from 3(2)[OF False eq run k later] Suc show ?thesis by simp
    qed
  qed
qed

lemma first_match_sound: "first_match rs m p = Some (r, b) \<Longrightarrow>
  \<exists>i<length rs. rs ! i = r \<and> matchRoute r m p = Some b \<and> (\<forall>j<i. matchRoute (rs ! j) m p = None)"
proof (induction rs)
  case Nil
  then show ?case by simp
next
  case (Cons a rs)
  show ?case
  proof (cases "matchRoute a m p")
    case None
    with Cons obtain i where i: "i < length rs" "rs ! i = r" "matchRoute r m p = Some b"
      "\<forall>j<i. matchRoute (rs ! j) m p = None" by auto
    have "\<forall>j<Suc i. matchRoute ((a # rs) ! j) m p = None"
      using None i(4) by (auto simp: less_Suc_eq_0_disj)
    with i show ?thesis by (intro exI[of _ "Suc i"]) auto
  next
    case (Some c)
    with Cons show ?thesis by (intro exI[of _ 0]) auto
  qed
qed

lemma first_match_complete: "i < length rs \<Longrightarrow> matchRoute (rs ! i) m p = Some b \<Longrightarrow>
  \<forall>j<i. matchRoute (rs ! j) m p = None \<Longrightarrow> first_match rs m p = Some (rs ! i, b)"
proof (induction rs arbitrary: i)
  case Nil
  then show ?case by simp
next
  case (Cons a rs)
  show ?case
  proof (cases i)
    case 0
    with Cons show ?thesis by simp
  next
    case (Suc k)
    with Cons(4) have "matchRoute a m p = None" by auto
    moreover have "\<forall>j<k. matchRoute (rs ! j) m p = None" using Cons(4) Suc by auto
    ultimately show ?thesis using Cons Suc by simp
  qed
qed

lemma first_match_none: "(first_match rs m p = None) = (\<forall>r\<in>set rs. matchRoute r m p = None)"
  by (induction rs) (auto split: option.splits)


lemma AddRoute_keys: "map route_key (AddRoute_loop new rs) =
   (if route_key new \<in> set (map route_key rs) then map route_key rs else map route_key rs @ [route_key new])"
  by (induction rs) (auto simp: route_key_def)

lemma hello_world_match: "matchRoute (mkRoute ''GET'' ''/hello/:name'' b) ''GET'' ''/hello/world'' = Some [''name'' \<mapsto> ''world'']"
  by (simp add: matchRoute_def mkRoute_def splitPath_def is_param_def param_name_def)

lemma first_registered_wins: "first_match [mkRoute ''GET'' ''/a/:x'' b1, mkRoute ''GET'' ''/a/b'' b2] ''GET'' ''/a/b'' 
   = Some (mkRoute ''GET'' ''/a/:x'' b1, [''x'' \<mapsto> ''b''])"
  by (simp add: matchRoute_def mkRoute_def splitPath_def is_param_def param_name_def extractParams_def)

lemma matchRoute_iff:
  "(\<exists>b. matchRoute route meth path = Some b) =
     (Method route = meth \<and> length (splitPath (Pattern route)) = length (splitPath path) \<and>
      (\<forall>i<length (splitPath (Pattern route)).
          is_param (splitPath (Pattern route) ! i) \<or> splitPath (Pattern route) ! i = splitPath path ! i))"
  by (auto simp: matchRoute_def Let_def matchRoute_loop_nth)

lemma matchRoute_binds:
  assumes "matchRoute route meth path = Some params"
  shows "i < length (splitPath (Pattern route)) \<Longrightarrow> is_param (splitPath (Pattern route) ! i) \<Longrightarrow>
     \<forall>j. i < j \<and> j < length (splitPath (Pattern route)) \<and> is_param (splitPath (Pattern route) ! j)
         \<longrightarrow> param_name (splitPath (Pattern route) ! j) \<noteq> param_name (splitPath (Pattern route) ! i) \<Longrightarrow>
     params (param_name (splitPath (Pattern route) ! i)) = Some (splitPath path ! i)"
   and "\<forall>pp\<in>set (splitPath (Pattern route)). is_param pp \<longrightarrow> param_name pp \<noteq> k \<Longrightarrow> params k = None"
proof -
  from assms have run: "matchRoute_loop (splitPath (Pattern route)) (splitPath path) Map.empty = Some params"
    by (auto simp: matchRoute_def Let_def split: if_splits)
  show "i < length (splitPath (Pattern route)) \<Longrightarrow> is_param (splitPath (Pattern route) ! i) \<Longrightarrow>
     \<forall>j. i < j \<and> j < length (splitPath (Pattern route)) \<and> is_param (splitPath (Pattern route) ! j)
         \<longrightarrow> param_name (splitPath (Pattern route) ! j) \<noteq> param_name (splitPath (Pattern route) ! i) \<Longrightarrow>
     params (param_name (splitPath (Pattern route) ! i)) = Some (splitPath path ! i)"
    by (rule matchRoute_loop_binds[OF run])
  show "\<forall>pp\<in>set (splitPath (Pattern route)). is_param pp \<longrightarrow> param_name pp \<noteq> k \<Longrightarrow> params k = None"
    using matchRoute_loop_unbound[OF run] by simp
qed

lemma first_match_iff:
  "(first_match rs meth path = Some (route, params)) =
     (\<exists>i<length rs. rs ! i = route \<and> matchRoute route meth path = Some params \<and>
        (\<forall>j<i. matchRoute (rs ! j) meth path = None))"
  using first_match_sound[of rs meth path route params] first_match_complete[of _ rs meth path params]
  by blast

lemma serve_routes_first:
  "first_match (GetRoutes s) (ReqMethod r) (URLPath r) = Some (route, params) \<Longrightarrow>
     take 2 (snd (serve_routes Eval others outcome w r s)) =
       [Step_SetRequestContext (Some (ctx_next s)), Step_Eval (Body route)]"
  by (simp add: serve_routes_def Let_def split: prod.splits)

lemma serve_routes_none:
  "first_match (GetRoutes s) (ReqMethod r) (URLPath r) = None \<Longrightarrow>
     serve_routes Eval others outcome w r s = (s, [Step_http_NotFound])"
  by (simp add: serve_routes_def)

lemma AddRoute_order:
  "map route_key (routes (AddRoute meth pattern body s)) =
     (if (meth, pattern) \<in> set (map route_key (routes s)) then map route_key (routes s)
      else map route_key (routes s) @ [(meth, pattern)])"
  using AddRoute_keys[of "mkRoute meth pattern body" "routes s"]
  by (simp add: AddRoute_def mkRoute_def route_key_def)


text \<open>
  Claim C1. \<^verbatim>\<open>splitPath\<close> yields the \<open>/\<close>-delimited segments of its argument without the
  empty ones. \<^verbatim>\<open>matchRoute\<close> succeeds exactly when the method is the route's, pattern
  and path have the same number of segments, and every pattern segment either begins
  with \<open>:\<close> or equals the path segment at its index. On success a segment \<open>:name\<close> binds
  \<open>name\<close> to the path segment at its index (when the pattern repeats a name, the last
  segment with that name is the one bound, as with any assignment to a Go map), and no
  other name is bound. The handler scans the route slice from the front and serves the
  first route that matches, whatever routes come after it: it submits that route's
  script, and answers not-found when no route matches. \<^verbatim>\<open>AddRoute\<close> keeps the slice in
  the order in which the keys were first registered. Pattern \<open>/hello/:name\<close> against
  the path \<open>/hello/world\<close> yields the binding of \<open>name\<close> to \<open>world\<close>; with \<open>/a/:x\<close>
  registered before \<open>/a/b\<close>, path \<open>/a/b\<close> is served by \<open>/a/:x\<close>.
\<close>

theorem C1_route_matching:
  "splitPath path = spec_segments path
   \<and> ((\<exists>b. matchRoute route meth path = Some b) \<longleftrightarrow>
        Method route = meth
        \<and> length (splitPath (Pattern route)) = length (splitPath path)
        \<and> (\<forall>i<length (splitPath (Pattern route)).
              is_param (splitPath (Pattern route) ! i)
              \<or> splitPath (Pattern route) ! i = splitPath path ! i))
   \<and> (matchRoute route meth path = Some params \<longrightarrow>
        (\<forall>i<length (splitPath (Pattern route)).
            is_param (splitPath (Pattern route) ! i)
            \<and> (\<forall>j. i < j \<and> j < length (splitPath (Pattern route))
                      \<and> is_param (splitPath (Pattern route) ! j)
                   \<longrightarrow> param_name (splitPath (Pattern route) ! j)
                         \<noteq> param_name (splitPath (Pattern route) ! i))
            \<longrightarrow> params (param_name (splitPath (Pattern route) ! i)) = Some (splitPath path ! i))
        \<and> (\<forall>k. (\<forall>pp\<in>set (splitPath (Pattern route)). is_param pp \<longrightarrow> param_name pp \<noteq> k)
               \<longrightarrow> params k = None))
   \<and> (first_match rs meth path = Some (route, params) \<longleftrightarrow>
        (\<exists>i<length rs. rs ! i = route \<and> matchRoute route meth path = Some params
            \<and> (\<forall>j<i. matchRoute (rs ! j) meth path = None)))
   \<and> (first_match rs meth path = None \<longleftrightarrow> (\<forall>r\<in>set rs. matchRoute r meth path = None))
   \<and> (first_match (GetRoutes s) (ReqMethod r) (URLPath r) = Some (route, params) \<longrightarrow>
        take 2 (snd (serve_routes Eval others outcome w r s)) =
          [Step_SetRequestContext (Some (ctx_next s)), Step_Eval (Body route)])
   \<and> (first_match (GetRoutes s) (ReqMethod r) (URLPath r) = None \<longrightarrow>
        serve_routes Eval others outcome w r s = (s, [Step_http_NotFound]))
   \<and> map route_key (routes (AddRoute meth pattern body s)) =
        (if (meth, pattern) \<in> set (map route_key (routes s)) then map route_key (routes s)
         else map route_key (routes s) @ [(meth, pattern)])
   \<and> matchRoute (mkRoute ''GET'' ''/hello/:name'' body) ''GET'' ''/hello/world''
        = Some [''name'' \<mapsto> ''world'']
   \<and> first_match [mkRoute ''GET'' ''/a/:x'' body, mkRoute ''GET'' ''/a/b'' body'] ''GET'' ''/a/b''
        = Some (mkRoute ''GET'' ''/a/:x'' body, [''x'' \<mapsto> ''b''])"
proof -
  have binds: "matchRoute route meth path = Some params \<longrightarrow>
        (\<forall>i<length (splitPath (Pattern route)).
            is_param (splitPath (Pattern route) ! i)
            \<and> (\<forall>j. i < j \<and> j < length (splitPath (Pattern route))
                      \<and> is_param (splitPath (Pattern route) ! j)
                   \<longrightarrow> param_name (splitPath (Pattern route) ! j)
                         \<noteq> param_name (splitPath (Pattern route) ! i))
            \<longrightarrow> params (param_name (splitPath (Pattern route) ! i)) = Some (splitPath path ! i))
        \<and> (\<forall>k. (\<forall>pp\<in>set (splitPath (Pattern route)). is_param pp \<longrightarrow> param_name pp \<noteq> k)
               \<longrightarrow> params k = None)"
    using matchRoute_binds[of route meth path params] by blast
  show ?thesis
    by (intro conjI splitPath_spec matchRoute_iff binds first_match_iff first_match_none
          AddRoute_order hello_world_match first_registered_wins impI serve_routes_first serve_routes_none)
qed


theorem C1_route_matching_witness:
  "matchRoute (mkRoute ''GET'' ''/hello/:name'' ''greet'') ''GET'' ''/hello/world''
     = Some [''name'' \<mapsto> ''world'']
   \<and> Method (mkRoute ''GET'' ''/hello/:name'' ''greet'') = ''GET''
   \<and> length (splitPath (Pattern (mkRoute ''GET'' ''/hello/:name'' ''greet'')))
        = length (splitPath ''/hello/world'')
   \<and> splitPath (Pattern (mkRoute ''GET'' ''/hello/:name'' ''greet'')) = [''hello'', '':name'']
   \<and> splitPath ''/hello/world'' = [''hello'', ''world'']
   \<and> [''name'' \<mapsto> ''world'']
          (param_name (splitPath (Pattern (mkRoute ''GET'' ''/hello/:name'' ''greet'')) ! 1))
        = Some (splitPath ''/hello/world'' ! 1)
   \<and> [''name'' \<mapsto> ''world''] ''hello'' = None
   \<and> first_match (GetRoutes (AddRoute ''GET'' ''/hello/:name'' ''greet'' NewServerState))
         (ReqMethod \<lparr>ReqMethod = ''GET'', URLPath = ''/hello/world'', URLQuery = Map.empty\<rparr>)
         (URLPath \<lparr>ReqMethod = ''GET'', URLPath = ''/hello/world'', URLQuery = Map.empty\<rparr>)
        = Some (mkRoute ''GET'' ''/hello/:name'' ''greet'', [''name'' \<mapsto> ''world''])
   \<and> take 2 (snd (serve_routes example_eval id Terminated fresh_writer
                      \<lparr>ReqMethod = ''GET'', URLPath = ''/hello/world'', URLQuery = Map.empty\<rparr>
                      (AddRoute ''GET'' ''/hello/:name'' ''greet'' NewServerState)))
        = [Step_SetRequestContext (Some (ctx_next (AddRoute ''GET'' ''/hello/:name'' ''greet'' NewServerState))),
           Step_Eval (Body (mkRoute ''GET'' ''/hello/:name'' ''greet''))]
   \<and> first_match [] ''GET'' ''/hello/world'' = None
   \<and> first_match (GetRoutes (AddRoute ''GET'' ''/hello/:name'' ''greet'' NewServerState))
         (ReqMethod \<lparr>ReqMethod = ''GET'', URLPath = ''/hello'', URLQuery = Map.empty\<rparr>)
         (URLPath \<lparr>ReqMethod = ''GET'', URLPath = ''/hello'', URLQuery = Map.empty\<rparr>)
        = None
   \<and> serve_routes example_eval id Terminated fresh_writer
         \<lparr>ReqMethod = ''GET'', URLPath = ''/hello'', URLQuery = Map.empty\<rparr>
         (AddRoute ''GET'' ''/hello/:name'' ''greet'' NewServerState)
        = (AddRoute ''GET'' ''/hello/:name'' ''greet'' NewServerState, [Step_http_NotFound])"
proof -
  let ?R = "mkRoute ''GET'' ''/hello/:name'' ''greet''"
  let ?q = "\<lparr>ReqMethod = ''GET'', URLPath = ''/hello'', URLQuery = Map.empty\<rparr>"
  let ?S = "AddRoute ''GET'' ''/hello/:name'' ''greet'' NewServerState"
  let ?r = "\<lparr>ReqMethod = ''GET'', URLPath = ''/hello/world'', URLQuery = Map.empty\<rparr>"
  let ?P = "[''name'' \<mapsto> ''world'']"
  note T = C1_route_matching[where path = "''/hello/world''" and route = ?R
      and meth = "''GET''" and params = ?P and rs = "[]" and s = ?S and r = ?r
      and Eval = example_eval and others = id and outcome = Terminated and w = fresh_writer]
  have pat: "splitPath (Pattern ?R) = [''hello'', '':name'']"
    by (simp add: mkRoute_def splitPath_def)
  have pth: "splitPath ''/hello/world'' = [''hello'', ''world'']"
    by (simp add: splitPath_def)
  have m: "matchRoute ?R ''GET'' ''/hello/world'' = Some ?P"
    by (simp add: matchRoute_def mkRoute_def splitPath_def is_param_def param_name_def)
  have f: "first_match (GetRoutes ?S) (ReqMethod ?r) (URLPath ?r) = Some (?R, ?P)"
    using m by (simp add: GetRoutes_def AddRoute_def NewServerState_def)
  have e: "first_match [] ''GET'' ''/hello/world'' = None"
    using T by simp
  from T m have shape: "Method ?R = ''GET'' \<and> length (splitPath (Pattern ?R)) = length (splitPath ''/hello/world'')"
    by blast
  from T m have binds: "\<forall>i<length (splitPath (Pattern ?R)).
            is_param (splitPath (Pattern ?R) ! i)
            \<and> (\<forall>j. i < j \<and> j < length (splitPath (Pattern ?R))
                      \<and> is_param (splitPath (Pattern ?R) ! j)
                   \<longrightarrow> param_name (splitPath (Pattern ?R) ! j)
                         \<noteq> param_name (splitPath (Pattern ?R) ! i))
            \<longrightarrow> ?P (param_name (splitPath (Pattern ?R) ! i)) = Some (splitPath ''/hello/world'' ! i)"
    by blast
  have "1 < length (splitPath (Pattern ?R)) \<and> is_param (splitPath (Pattern ?R) ! 1)
        \<and> (\<forall>j. 1 < j \<and> j < length (splitPath (Pattern ?R)) \<and> is_param (splitPath (Pattern ?R) ! j)
              \<longrightarrow> param_name (splitPath (Pattern ?R) ! j) \<noteq> param_name (splitPath (Pattern ?R) ! 1))"
    by (simp add: pat is_param_def)
  with binds have b1: "?P (param_name (splitPath (Pattern ?R) ! 1)) = Some (splitPath ''/hello/world'' ! 1)"
    by blast
  from T f have tr: "take 2 (snd (serve_routes example_eval id Terminated fresh_writer ?r ?S))
        = [Step_SetRequestContext (Some (ctx_next ?S)), Step_Eval (Body ?R)]"
    by blast
  note N = C1_route_matching[where s = ?S and r = ?q and Eval = example_eval and others = id
      and outcome = Terminated and w = fresh_writer]
  have nf: "first_match (GetRoutes ?S) (ReqMethod ?q) (URLPath ?q) = None"
    by (simp add: GetRoutes_def AddRoute_def NewServerState_def matchRoute_def mkRoute_def
          splitPath_def)
  from N nf have nr: "serve_routes example_eval id Terminated fresh_writer ?q ?S
        = (?S, [Step_http_NotFound])"
    by blast
  show ?thesis
    using m shape pat pth b1 f tr e nf nr by simp
qed


section \<open>The commit protocol of a request context\<close>




lemma status_later_respond:
  assumes "Written (ctx_heap s ctx)"
  shows "Writer (ctx_heap (snd (respond (s\<lparr>ctx_heap := (ctx_heap s)(ctx := (ctx_heap s ctx)\<lparr>Status := code\<rparr>)\<rparr>) rargs)) a)
       = Writer (ctx_heap (snd (respond s rargs)) a)"
  using assms
  by (auto simp: respond_def target_ctx_def GetConnection_def GetRequestContext_def commit_def send_def
       split: option.splits)

lemma header_later_respond:
  assumes "Written (ctx_heap s ctx)"
  shows "Writer (ctx_heap (snd (respond (s\<lparr>ctx_heap := (ctx_heap s)(ctx := (ctx_heap s ctx)\<lparr>Headers := hs\<rparr>)\<rparr>) rargs)) a)
       = Writer (ctx_heap (snd (respond s rargs)) a)"
  using assms
  by (auto simp: respond_def target_ctx_def GetConnection_def GetRequestContext_def commit_def send_def
       split: option.splits)


lemma status_writer_same:
  "Writer (ctx_heap (snd (status s args)) a) = Writer (ctx_heap s a)
   \<and> Written (ctx_heap (snd (status s args)) a) = Written (ctx_heap s a)"
  by (auto simp: status_def split: sum.splits option.splits prod.splits)

lemma header_writer_same:
  "Writer (ctx_heap (snd (header s args)) a) = Writer (ctx_heap s a)
   \<and> Written (ctx_heap (snd (header s args)) a) = Written (ctx_heap s a)"
  by (auto simp: header_def split: sum.splits option.splits prod.splits)

lemma status_ok:
  "target_ctx ''status'' s args = Inr (ctx, i) \<Longrightarrow> i < length args \<Longrightarrow> Int_of (args ! i) = Some code \<Longrightarrow>
     status s args = (OK [], s\<lparr>ctx_heap := (ctx_heap s)(ctx := (ctx_heap s ctx)\<lparr>Status := code\<rparr>)\<rparr>)"
  by (simp add: status_def)

lemma header_ok:
  "target_ctx ''header'' s args = Inr (ctx, i) \<Longrightarrow> i + 2 \<le> length args \<Longrightarrow>
     header s args = (OK [], s\<lparr>ctx_heap := (ctx_heap s)(ctx := (ctx_heap s ctx)
        \<lparr>Headers := AList.update (String_of (args ! i)) (String_of (args ! (i + 1))) (Headers (ctx_heap s ctx))\<rparr>)\<rparr>)"
  by (simp add: header_def)

lemma committed_state_eval:
  "Written (ctx_heap committed_state 0)"
  "calls (Writer (ctx_heap committed_state 0)) = [WriteHeader 200, Write ''hi'']"
  "reqCtx committed_state = Some 0"
  "connections committed_state = []"
  by (simp_all add: committed_state_def open_state_def respond_def target_ctx_def
        GetRequestContext_def SetRequestContext_def new_context_def NewServerState_def
        commit_def send_def fresh_writer_def)







text \<open>
  Claim C3. On a context that is already written, a \<^verbatim>\<open>status\<close> call with an integer
  code and a \<^verbatim>\<open>header\<close> call with a name and a value return \<^verbatim>\<open>OK\<close>, call nothing on
  any sink and leave every written mark alone, and a later \<^verbatim>\<open>respond\<close> puts on every
  sink exactly what it would have put there without the call. (The calls still store
  the new value in the context's pending fields.)
\<close>

theorem C3_post_commit_status_header:
  "Written (ctx_heap s ctx) \<Longrightarrow>
     (target_ctx ''status'' s args = Inr (ctx, i) \<and> i < length args \<and> Int_of (args ! i) = Some code \<longrightarrow>
        fst (status s args) = OK []
        \<and> (\<forall>a. Writer (ctx_heap (snd (status s args)) a) = Writer (ctx_heap s a))
        \<and> (\<forall>a. Written (ctx_heap (snd (status s args)) a) = Written (ctx_heap s a))
        \<and> (\<forall>rargs a. Writer (ctx_heap (snd (respond (snd (status s args)) rargs)) a)
                     = Writer (ctx_heap (snd (respond s rargs)) a)))
     \<and> (target_ctx ''header'' s args = Inr (ctx, i) \<and> i + 2 \<le> length args \<longrightarrow>
        fst (header s args) = OK []
        \<and> (\<forall>a. Writer (ctx_heap (snd (header s args)) a) = Writer (ctx_heap s a))
        \<and> (\<forall>a. Written (ctx_heap (snd (header s args)) a) = Written (ctx_heap s a))
        \<and> (\<forall>rargs a. Writer (ctx_heap (snd (respond (snd (header s args)) rargs)) a)
                     = Writer (ctx_heap (snd (respond s rargs)) a)))"
proof (intro conjI impI)
  assume w: "Written (ctx_heap s ctx)"
  assume "target_ctx ''status'' s args = Inr (ctx, i) \<and> i < length args \<and> Int_of (args ! i) = Some code"
  then have eq: "status s args = (OK [], s\<lparr>ctx_heap := (ctx_heap s)(ctx := (ctx_heap s ctx)\<lparr>Status := code\<rparr>)\<rparr>)"
    by (simp add: status_ok)
  show "fst (status s args) = OK []" by (simp add: eq)
  show "\<forall>a. Writer (ctx_heap (snd (status s args)) a) = Writer (ctx_heap s a)"
    by (simp add: status_writer_same)
  show "\<forall>a. Written (ctx_heap (snd (status s args)) a) = Written (ctx_heap s a)"
    by (simp add: status_writer_same)
  show "\<forall>rargs a. Writer (ctx_heap (snd (respond (snd (status s args)) rargs)) a)
                     = Writer (ctx_heap (snd (respond s rargs)) a)"
    using status_later_respond[OF w] by (simp add: eq)
next
  assume w: "Written (ctx_heap s ctx)"
  assume "target_ctx ''header'' s args = Inr (ctx, i) \<and> i + 2 \<le> length args"
  then have eq: "header s args = (OK [], s\<lparr>ctx_heap := (ctx_heap s)(ctx := (ctx_heap s ctx)
        \<lparr>Headers := AList.update (String_of (args ! i)) (String_of (args ! (i + 1))) (Headers (ctx_heap s ctx))\<rparr>)\<rparr>)"
    by (simp add: header_ok)
  show "fst (header s args) = OK []" by (simp add: eq)
  show "\<forall>a. Writer (ctx_heap (snd (header s args)) a) = Writer (ctx_heap s a)"
    by (simp add: header_writer_same)
  show "\<forall>a. Written (ctx_heap (snd (header s args)) a) = Written (ctx_heap s a)"
    by (simp add: header_writer_same)
  show "\<forall>rargs a. Writer (ctx_heap (snd (respond (snd (header s args)) rargs)) a)
                     = Writer (ctx_heap (snd (respond s rargs)) a)"
    using header_later_respond[OF w] by (simp add: eq)
qed

theorem C3_post_commit_status_header_witness:
  "Written (ctx_heap committed_state 0)
   \<and> target_ctx ''status'' committed_state [Obj ''500'' (Some 500)] = Inr (0, 0)
   \<and> fst (status committed_state [Obj ''500'' (Some 500)]) = OK []
   \<and> calls (Writer (ctx_heap (snd (status committed_state [Obj ''500'' (Some 500)])) 0))
        = [WriteHeader 200, Write ''hi'']
   \<and> calls (Writer (ctx_heap (snd (respond (snd (status committed_state [Obj ''500'' (Some 500)]))
                                        [Obj ''more'' None])) 0))
        = [WriteHeader 200, Write ''hi'', Write ''more'']
   \<and> target_ctx ''header'' committed_state [Obj ''X-Late'' None, Obj ''1'' None] = Inr (0, 0)
   \<and> fst (header committed_state [Obj ''X-Late'' None, Obj ''1'' None]) = OK []
   \<and> calls (Writer (ctx_heap (snd (header committed_state [Obj ''X-Late'' None, Obj ''1'' None])) 0))
        = [WriteHeader 200, Write ''hi'']"
proof -
  let ?sa = "[Obj ''500'' (Some 500)]"
  let ?ha = "[Obj ''X-Late'' None, Obj ''1'' None]"
  note w = committed_state_eval(1)
  have ts: "target_ctx ''status'' committed_state ?sa = Inr (0, 0)"
    and th: "target_ctx ''header'' committed_state ?ha = Inr (0, 0)"
    by (simp_all add: target_ctx_def GetRequestContext_def committed_state_eval)
  note S = C3_post_commit_status_header[OF w, where args = ?sa and i = 0 and code = 500, THEN conjunct1]
  note H = C3_post_commit_status_header[OF w, where args = ?ha and i = 0, THEN conjunct2]
  from S ts have s1: "fst (status committed_state ?sa) = OK []"
    and s2: "Writer (ctx_heap (snd (status committed_state ?sa)) 0) = Writer (ctx_heap committed_state 0)"
    and s3: "Writer (ctx_heap (snd (respond (snd (status committed_state ?sa)) [Obj ''more'' None])) 0)
           = Writer (ctx_heap (snd (respond committed_state [Obj ''more'' None])) 0)"
    by simp_all
  from H th have h1: "fst (header committed_state ?ha) = OK []"
    and h2: "Writer (ctx_heap (snd (header committed_state ?ha)) 0) = Writer (ctx_heap committed_state 0)"
    by simp_all
  have r: "calls (Writer (ctx_heap (snd (respond committed_state [Obj ''more'' None])) 0))
         = [WriteHeader 200, Write ''hi'', Write ''more'']"
    by (simp add: respond_def target_ctx_def GetRequestContext_def committed_state_eval commit_def send_def)
  show ?thesis
    using w ts th s1 s2 s3 h1 h2 r committed_state_eval(2) by simp
qed



text \<open>
  Claim C5. \<^verbatim>\<open>respond\<close>, \<^verbatim>\<open>status\<close>, \<^verbatim>\<open>header\<close> and \<^verbatim>\<open>flush\<close> called with
  \<^verbatim>\<open>-to HANDLE\<close> for a handle the registry does not know return \<^verbatim>\<open>OK\<close> with the empty
  string and leave the whole server state as it was.
\<close>

theorem C5_dead_handle_noop:
  "length args \<ge> 2 \<Longrightarrow> String_of (args ! 0) = ''-to'' \<Longrightarrow>
   GetConnection s (String_of (args ! 1)) = None \<Longrightarrow>
     respond s args = (OK [], s) \<and> status s args = (OK [], s)
     \<and> header s args = (OK [], s) \<and> flush s args = (OK [], s)"
  by (simp add: respond_def status_def header_def flush_def target_ctx_def)


theorem C5_dead_handle_noop_witness:
  "GetConnection (snd (CloseConnection ''room'' held_once)) ''room'' = None
   \<and> respond (snd (CloseConnection ''room'' held_once))
         [Obj ''-to'' None, Obj ''room'' None, Obj ''ping'' None]
        = (OK [], snd (CloseConnection ''room'' held_once))
   \<and> status (snd (CloseConnection ''room'' held_once))
         [Obj ''-to'' None, Obj ''room'' None, Obj ''500'' (Some 500)]
        = (OK [], snd (CloseConnection ''room'' held_once))
   \<and> header (snd (CloseConnection ''room'' held_once))
         [Obj ''-to'' None, Obj ''room'' None, Obj ''X-Seen'' None, Obj ''1'' None]
        = (OK [], snd (CloseConnection ''room'' held_once))
   \<and> flush (snd (CloseConnection ''room'' held_once)) [Obj ''-to'' None, Obj ''room'' None]
        = (OK [], snd (CloseConnection ''room'' held_once))"
proof -
  let ?s = "snd (CloseConnection ''room'' held_once)"
  have gone: "GetConnection ?s ''room'' = None"
    by (simp add: GetConnection_def CloseConnection_def Let_def held_once_def HoldConnection_def
          open_state_def SetRequestContext_def new_context_def NewServerState_def)
  have "respond ?s [Obj ''-to'' None, Obj ''room'' None, Obj ''ping'' None] = (OK [], ?s)"
    using C5_dead_handle_noop[of "[Obj ''-to'' None, Obj ''room'' None, Obj ''ping'' None]" ?s] gone
    by simp
  moreover have "status ?s [Obj ''-to'' None, Obj ''room'' None, Obj ''500'' (Some 500)] = (OK [], ?s)"
    using C5_dead_handle_noop[of "[Obj ''-to'' None, Obj ''room'' None, Obj ''500'' (Some 500)]" ?s] gone
    by simp
  moreover have "header ?s [Obj ''-to'' None, Obj ''room'' None, Obj ''X-Seen'' None, Obj ''1'' None]
                   = (OK [], ?s)"
    using C5_dead_handle_noop[of "[Obj ''-to'' None, Obj ''room'' None, Obj ''X-Seen'' None, Obj ''1'' None]" ?s]
      gone by simp
  moreover have "flush ?s [Obj ''-to'' None, Obj ''room'' None] = (OK [], ?s)"
    using C5_dead_handle_noop[of "[Obj ''-to'' None, Obj ''room'' None]" ?s] gone by simp
  ultimately show ?thesis using gone by simp
qed

text \<open>
  Claim C10. Inside a request, \<^verbatim>\<open>query NAME DEFAULT\<close> returns the default when the
  query has no value for the name and also when its first value for the name is empty;
  \<^verbatim>\<open>query NAME\<close> returns the empty string in both cases.
\<close>

theorem C10_query_default:
  "GetRequestContext s = Some ctx \<Longrightarrow>
   URLQuery (Request (ctx_heap s ctx)) name = None
   \<or> URLQuery (Request (ctx_heap s ctx)) name = Some ([] # vs) \<Longrightarrow>
     query s [Obj name i, Obj dflt j] = (OK dflt, s) \<and> query s [Obj name i] = (OK [], s)"
  by (auto simp: query_def Values_Get_def)


theorem C10_query_default_witness:
  "GetRequestContext open_state = Some 0
   \<and> URLQuery (Request (ctx_heap open_state 0)) ''limit'' = None
   \<and> URLQuery (Request (ctx_heap open_state 0)) ''tag'' = Some [[]]
   \<and> query open_state [Obj ''limit'' None, Obj ''10'' (Some 10)] = (OK ''10'', open_state)
   \<and> query open_state [Obj ''tag'' None, Obj ''10'' (Some 10)] = (OK ''10'', open_state)
   \<and> query open_state [Obj ''limit'' None] = (OK [], open_state)
   \<and> query open_state [Obj ''tag'' None] = (OK [], open_state)
   \<and> query open_state [Obj ''client'' None, Obj ''10'' (Some 10)] = (OK ''room'', open_state)"
proof -
  have c: "GetRequestContext open_state = Some 0"
    by (simp add: GetRequestContext_def open_state_def SetRequestContext_def new_context_def)
  have q: "URLQuery (Request (ctx_heap open_state 0)) ''limit'' = None"
    "URLQuery (Request (ctx_heap open_state 0)) ''tag'' = Some ([] # [])"
    "URLQuery (Request (ctx_heap open_state 0)) ''client'' = Some [''room'']"
    by (simp_all add: open_state_def SetRequestContext_def new_context_def NewServerState_def
          stream_request_def)
  note A = C10_query_default[OF c, where name = "''limit''" and i = None and dflt = "''10''"
      and j = "Some 10" and vs = "[]"]
  note B = C10_query_default[OF c, where name = "''tag''" and i = None and dflt = "''10''"
      and j = "Some 10" and vs = "[]"]
  have p: "query open_state [Obj ''client'' None, Obj ''10'' (Some 10)] = (OK ''room'', open_state)"
    by (simp add: query_def Values_Get_def c q)
  show ?thesis using A B c q p by simp
qed

section \<open>The connection registry: holding and closing\<close>



















lemma generateID_examples:
  "generateID bytes_a = ''conn-0102030405060708''"
  "generateID bytes_b = ''conn-090a0b0c0d0e0f10''"
  by (simp_all add: generateID_def EncodeToString_def hexdigit_def bytes_a_def bytes_b_def)

lemma open_state_eval:
  "open_state = NewServerState\<lparr>routes := [], reqCtx := Some 0,
      ctx_heap := (\<lambda>_. zero_ctx)(0 := \<lparr>Writer = fresh_writer, Request = stream_request,
          CtxParams = Map.empty, Status = 200, Headers = [], Written = False\<rparr>),
      ctx_next := Suc 0\<rparr>"
  by (simp add: open_state_def SetRequestContext_def new_context_def NewServerState_def)



lemma held_once_eval:
  "connections held_once = [(''conn-0102030405060708'', 0), (''room'', 0)]"
  "conn_heap held_once 0 = \<lparr>ID = ''conn-0102030405060708'', Name = ''room'', Ctx = 0, Opened = 0,
                            Done = False, OnClose = []\<rparr>"
  "conn_next held_once = 1"
  "reqCtx held_once = Some 0"
  by (simp_all add: held_once_def HoldConnection_def Let_def generateID_examples open_state_eval
        NewServerState_def)

lemma held_twice_eval:
  "connections held_twice
     = [(''conn-0102030405060708'', 0), (''room'', 1), (''conn-090a0b0c0d0e0f10'', 1)]"
  "conn_heap held_twice 0 = \<lparr>ID = ''conn-0102030405060708'', Name = ''room'', Ctx = 0, Opened = 0,
                             Done = False, OnClose = []\<rparr>"
  "conn_heap held_twice (Suc 0) = \<lparr>ID = ''conn-090a0b0c0d0e0f10'', Name = ''room'', Ctx = 1, Opened = 1,
                             Done = False, OnClose = []\<rparr>"
  by (simp_all add: held_twice_def HoldConnection_def Let_def generateID_examples held_once_eval
        SetRequestContext_def new_context_def)






text \<open>
  Claim C8, evaluated where it fails. Two requests hold their connection under the alias
  \<open>room\<close>. The first connection is still found by its id, but its alias now resolves to
  the second connection. Closing the first connection by its id then removes the alias
  entry, so the second connection is still found by its id while its alias is unknown.
\<close>

theorem C8_alias_reuse_breaks_pairing:
  "GetConnection held_twice ''conn-0102030405060708'' = Some 0
   \<and> Name (conn_heap held_twice 0) = ''room''
   \<and> GetConnection held_twice ''room'' = Some 1
   \<and> GetConnection (snd (CloseConnection ''conn-0102030405060708'' held_twice))
        ''conn-090a0b0c0d0e0f10'' = Some 1
   \<and> Name (conn_heap (snd (CloseConnection ''conn-0102030405060708'' held_twice)) 1) = ''room''
   \<and> GetConnection (snd (CloseConnection ''conn-0102030405060708'' held_twice)) ''room'' = None"
  by (simp add: GetConnection_def CloseConnection_def Let_def held_twice_eval)



section \<open>The dispatcher: script errors and the ambient context\<close>

lemma report_error_trace:
  "snd (report_error ctx err s) =
     (case err of None \<Rightarrow> []
      | Some e \<Rightarrow> if \<not> Written (ctx_heap s ctx) then [Step_http_Error e 500] else [])"
  by (simp add: report_error_def split: option.splits)

lemma report_error_state:
  "fst (report_error ctx err s) =
     (case err of None \<Rightarrow> s
      | Some e \<Rightarrow> if \<not> Written (ctx_heap s ctx)
                  then s\<lparr>ctx_heap := (ctx_heap s)(ctx := send [http_Error e 500] (ctx_heap s ctx))\<rparr>
                  else s)"
  by (simp add: report_error_def split: option.splits)

lemma report_error_find:
  "findConnectionByContext (fst (report_error ctx err s)) c = findConnectionByContext s c"
  by (simp add: report_error_state findConnectionByContext_def split: option.splits)

lemma await_held_trace:
  "\<exists>rest. snd (await_held Eval others outcome ctx s) = Step_findConnectionByContext ctx # rest
     \<and> Step_SetRequestContext None \<notin> set rest
     \<and> (\<forall>e c. Step_http_Error e c \<notin> set rest)
     \<and> (\<forall>conn. findConnectionByContext s ctx = Some conn \<longrightarrow> Step_select conn \<in> set rest)"
  by (cases outcome) (auto simp: await_held_def Let_def split: option.splits)

lemma await_held_not_held:
  "findConnectionByContext s ctx = None \<Longrightarrow>
     await_held Eval others outcome ctx s = (s, [Step_findConnectionByContext ctx])"
  by (simp add: await_held_def)

lemma serve_routes_unfold:
  assumes "first_match (GetRoutes s) (ReqMethod r) (URLPath r) = Some (route, params)"
    and "Eval (Body route) (SetRequestContext (Some (ctx_next s)) (new_context w r params s)) = (err, s3)"
  shows "serve_routes Eval others outcome w r s =
     (SetRequestContext None
        (fst (await_held Eval others outcome (ctx_next s) (fst (report_error (ctx_next s) err s3)))),
      [Step_SetRequestContext (Some (ctx_next s)), Step_Eval (Body route)]
      @ snd (report_error (ctx_next s) err s3)
      @ snd (await_held Eval others outcome (ctx_next s) (fst (report_error (ctx_next s) err s3)))
      @ [Step_SetRequestContext None])"
  using assms by (simp add: serve_routes_def Let_def split: prod.splits)

lemma stream_match:
  "first_match (GetRoutes (AddRoute ''GET'' ''/chat/stream'' body NewServerState))
      (ReqMethod stream_request) (URLPath stream_request)
     = Some (mkRoute ''GET'' ''/chat/stream'' body, Map.empty)"
  by (simp add: GetRoutes_def AddRoute_def NewServerState_def stream_request_def matchRoute_def
        mkRoute_def splitPath_def is_param_def)

lemma hold_trace_eval:
  "snd (serve_routes example_eval id Disconnected fresh_writer stream_request hold_routes)
     = [Step_SetRequestContext (Some 0), Step_Eval ''connection hold'',
        Step_findConnectionByContext 0, Step_select 0,
        Step_CloseConnection ''conn-0102030405060708'', Step_SetRequestContext None]"
proof -
  let ?R = "mkRoute ''GET'' ''/chat/stream'' ''connection hold''"
  define S2 where "S2 = SetRequestContext (Some (ctx_next hold_routes))
               (new_context fresh_writer stream_request Map.empty hold_routes)"
  define S3 where "S3 = snd (connection_hold bytes_a 0 S2 [Obj ''hold'' None])"
  have fm: "first_match (GetRoutes hold_routes) (ReqMethod stream_request) (URLPath stream_request)
     = Some (?R, Map.empty)"
    unfolding hold_routes_def by (rule stream_match)
  have n: "ctx_next hold_routes = 0"
    by (simp add: hold_routes_def AddRoute_def NewServerState_def)
  have ev: "example_eval (Body ?R) S2 = (None, S3)"
    by (simp add: S3_def example_eval_def mkRoute_def)
  have c3: "connections S3 = [(''conn-0102030405060708'', 0)]"
    "conn_heap S3 0 = \<lparr>ID = ''conn-0102030405060708'', Name = [], Ctx = 0, Opened = 0,
                        Done = False, OnClose = []\<rparr>"
    unfolding S3_def S2_def hold_routes_def
    by (simp_all add: SetRequestContext_def new_context_def connection_hold_def HoldConnection_def
          Let_def generateID_examples(1) AddRoute_def NewServerState_def)
  have aw: "snd (await_held example_eval id Disconnected 0 S3)
      = [Step_findConnectionByContext 0, Step_select 0, Step_CloseConnection ''conn-0102030405060708'']"
    by (simp add: await_held_def findConnectionByContext_def c3 Let_def)
  note U = serve_routes_unfold[where Eval = example_eval and others = id
          and outcome = Disconnected, OF fm ev[unfolded S2_def]]
  show ?thesis
    by (simp add: U report_error_def n aw mkRoute_def)
qed


text \<open>
  Claim C6. A request matches a route and the evaluation of the route's script returns
  an error. If the request's context is not written at that moment, the handler calls
  \<^verbatim>\<open>http.Error\<close> with the error text and status 500 on the context's sink, and goes on
  from that state; for a request that is not held, the sink then holds what the script
  put there followed by that call. If the context is written, the handler reports
  nothing and goes on from the state the script left; for a request that is not held,
  every context is as the script left it.
\<close>

theorem C6_script_error:
  "first_match (GetRoutes s) (ReqMethod r) (URLPath r) = Some (route, params) \<Longrightarrow>
   Eval (Body route) (SetRequestContext (Some (ctx_next s)) (new_context w r params s)) = (Some e, s3) \<Longrightarrow>
     (\<not> Written (ctx_heap s3 (ctx_next s)) \<longrightarrow>
        fst (serve_routes Eval others outcome w r s)
          = SetRequestContext None
              (fst (await_held Eval others outcome (ctx_next s)
                 (s3\<lparr>ctx_heap := (ctx_heap s3)
                       (ctx_next s := send [http_Error e 500] (ctx_heap s3 (ctx_next s)))\<rparr>)))
        \<and> Step_http_Error e 500 \<in> set (snd (serve_routes Eval others outcome w r s))
        \<and> (findConnectionByContext s3 (ctx_next s) = None \<longrightarrow>
             calls (Writer (ctx_heap (fst (serve_routes Eval others outcome w r s)) (ctx_next s)))
               = calls (Writer (ctx_heap s3 (ctx_next s))) @ [http_Error e 500]))
   \<and> (Written (ctx_heap s3 (ctx_next s)) \<longrightarrow>
        fst (serve_routes Eval others outcome w r s)
          = SetRequestContext None (fst (await_held Eval others outcome (ctx_next s) s3))
        \<and> (\<forall>x c. Step_http_Error x c \<notin> set (snd (serve_routes Eval others outcome w r s)))
        \<and> (findConnectionByContext s3 (ctx_next s) = None \<longrightarrow>
             ctx_heap (fst (serve_routes Eval others outcome w r s)) = ctx_heap s3))"
proof -
  assume fm: "first_match (GetRoutes s) (ReqMethod r) (URLPath r) = Some (route, params)"
    and ev: "Eval (Body route) (SetRequestContext (Some (ctx_next s)) (new_context w r params s)) = (Some e, s3)"
  note U = serve_routes_unfold[where Eval = Eval and w = w and s = s and r = r and others = others
      and outcome = outcome, OF fm ev]
  let ?ctx = "ctx_next s"
  let ?s4 = "s3\<lparr>ctx_heap := (ctx_heap s3)(?ctx := send [http_Error e 500] (ctx_heap s3 ?ctx))\<rparr>"
  have open_case: "\<not> Written (ctx_heap s3 ?ctx) \<Longrightarrow>
        fst (serve_routes Eval others outcome w r s)
          = SetRequestContext None (fst (await_held Eval others outcome ?ctx ?s4))
        \<and> Step_http_Error e 500 \<in> set (snd (serve_routes Eval others outcome w r s))
        \<and> (findConnectionByContext s3 ?ctx = None \<longrightarrow>
             calls (Writer (ctx_heap (fst (serve_routes Eval others outcome w r s)) ?ctx))
               = calls (Writer (ctx_heap s3 ?ctx)) @ [http_Error e 500])"
  proof -
    assume nw: "\<not> Written (ctx_heap s3 ?ctx)"
    then have st: "fst (report_error ?ctx (Some e) s3) = ?s4"
      and tr: "snd (report_error ?ctx (Some e) s3) = [Step_http_Error e 500]"
      by (simp_all add: report_error_state report_error_trace)
    have f: "findConnectionByContext ?s4 ?ctx = findConnectionByContext s3 ?ctx"
      by (simp add: findConnectionByContext_def)
    have one: "fst (serve_routes Eval others outcome w r s)
          = SetRequestContext None (fst (await_held Eval others outcome ?ctx ?s4))"
      by (simp add: U st)
    have two: "Step_http_Error e 500 \<in> set (snd (serve_routes Eval others outcome w r s))"
      by (simp add: U tr)
    have three: "calls (Writer (ctx_heap (fst (serve_routes Eval others outcome w r s)) ?ctx))
               = calls (Writer (ctx_heap s3 ?ctx)) @ [http_Error e 500]"
      if "findConnectionByContext s3 ?ctx = None"
    proof -
      from that f have "await_held Eval others outcome ?ctx ?s4 = (?s4, [Step_findConnectionByContext ?ctx])"
        by (simp add: await_held_not_held)
      then show ?thesis by (simp add: one SetRequestContext_def send_def)
    qed
    from one two three show ?thesis by blast
  qed
  have written_case: "Written (ctx_heap s3 ?ctx) \<Longrightarrow>
        fst (serve_routes Eval others outcome w r s)
          = SetRequestContext None (fst (await_held Eval others outcome ?ctx s3))
        \<and> (\<forall>x c. Step_http_Error x c \<notin> set (snd (serve_routes Eval others outcome w r s)))
        \<and> (findConnectionByContext s3 ?ctx = None \<longrightarrow>
             ctx_heap (fst (serve_routes Eval others outcome w r s)) = ctx_heap s3)"
  proof -
    assume wr: "Written (ctx_heap s3 ?ctx)"
    then have st: "fst (report_error ?ctx (Some e) s3) = s3"
      and tr: "snd (report_error ?ctx (Some e) s3) = []"
      by (simp_all add: report_error_state report_error_trace)
    obtain rest where rest: "snd (await_held Eval others outcome ?ctx s3) = Step_findConnectionByContext ?ctx # rest"
      "\<forall>e c. Step_http_Error e c \<notin> set rest"
      using await_held_trace[of Eval others outcome ?ctx s3] by blast
    have one: "fst (serve_routes Eval others outcome w r s)
          = SetRequestContext None (fst (await_held Eval others outcome ?ctx s3))"
      by (simp add: U st)
    have two: "\<forall>x c. Step_http_Error x c \<notin> set (snd (serve_routes Eval others outcome w r s))"
      using rest(2) by (simp add: U st tr rest(1))
    have three: "ctx_heap (fst (serve_routes Eval others outcome w r s)) = ctx_heap s3"
      if "findConnectionByContext s3 ?ctx = None"
      using that by (simp add: one await_held_not_held SetRequestContext_def)
    from one two three show ?thesis by blast
  qed
  from open_case written_case show ?thesis by blast
qed


theorem C6_script_error_witness:
  "first_match (GetRoutes boom_routes) (ReqMethod stream_request) (URLPath stream_request)
     = Some (mkRoute ''GET'' ''/chat/stream'' ''boom'', Map.empty)
   \<and> \<not> Written (ctx_heap (snd (example_eval ''boom''
           (SetRequestContext (Some (ctx_next boom_routes))
              (new_context fresh_writer stream_request Map.empty boom_routes)))) (ctx_next boom_routes))
   \<and> calls (Writer (ctx_heap
         (fst (serve_routes example_eval id Disconnected fresh_writer stream_request boom_routes)) 0))
       = [http_Error ''invalid command name'' 500]
   \<and> first_match (GetRoutes partial_routes) (ReqMethod stream_request) (URLPath stream_request)
     = Some (mkRoute ''GET'' ''/chat/stream'' ''respond partial; boom'', Map.empty)
   \<and> Written (ctx_heap (snd (example_eval ''respond partial; boom''
           (SetRequestContext (Some (ctx_next partial_routes))
              (new_context fresh_writer stream_request Map.empty partial_routes)))) (ctx_next partial_routes))
   \<and> calls (Writer (ctx_heap
         (fst (serve_routes example_eval id Disconnected fresh_writer stream_request partial_routes)) 0))
       = [WriteHeader 200, Write ''partial'']"
proof -
  let ?R1 = "mkRoute ''GET'' ''/chat/stream'' ''boom''"
  let ?R2 = "mkRoute ''GET'' ''/chat/stream'' ''respond partial; boom''"
  define B1 where "B1 = SetRequestContext (Some (ctx_next boom_routes))
              (new_context fresh_writer stream_request Map.empty boom_routes)"
  define B2 where "B2 = SetRequestContext (Some (ctx_next partial_routes))
              (new_context fresh_writer stream_request Map.empty partial_routes)"
  define S2 where "S2 = snd (respond B2 [Obj ''partial'' None])"
  have fm1: "first_match (GetRoutes boom_routes) (ReqMethod stream_request) (URLPath stream_request)
     = Some (?R1, Map.empty)"
    unfolding boom_routes_def by (rule stream_match)
  have fm2: "first_match (GetRoutes partial_routes) (ReqMethod stream_request) (URLPath stream_request)
     = Some (?R2, Map.empty)"
    unfolding partial_routes_def by (rule stream_match)
  have n1: "ctx_next boom_routes = 0" and n2: "ctx_next partial_routes = 0"
    by (simp_all add: boom_routes_def partial_routes_def AddRoute_def NewServerState_def)
  have ev1: "example_eval (Body ?R1) B1 = (Some ''invalid command name'', B1)"
    by (simp add: example_eval_def mkRoute_def)
  have ev2: "example_eval (Body ?R2) B2 = (Some ''invalid command name'', S2)"
    by (simp add: S2_def example_eval_def mkRoute_def)
  have st1: "\<not> Written (ctx_heap B1 0)"
    "calls (Writer (ctx_heap B1 0)) = []"
    "findConnectionByContext B1 0 = None"
    unfolding B1_def boom_routes_def
    by (simp_all add: SetRequestContext_def new_context_def fresh_writer_def
          findConnectionByContext_def AddRoute_def NewServerState_def)
  have st2: "Written (ctx_heap S2 0)"
    "calls (Writer (ctx_heap S2 0)) = [WriteHeader 200, Write ''partial'']"
    "findConnectionByContext S2 0 = None"
    unfolding S2_def B2_def partial_routes_def
    by (simp_all add: SetRequestContext_def new_context_def fresh_writer_def
          findConnectionByContext_def AddRoute_def NewServerState_def respond_def target_ctx_def
          GetRequestContext_def commit_def send_def)
  note A = C6_script_error[where Eval = example_eval and others = id and outcome = Disconnected,
      OF fm1 ev1[unfolded B1_def], folded B1_def, unfolded n1, THEN conjunct1]
  note B = C6_script_error[where Eval = example_eval and others = id and outcome = Disconnected,
      OF fm2 ev2[unfolded B2_def], unfolded n2, THEN conjunct2]
  from A st1(1,3) have "calls (Writer (ctx_heap
         (fst (serve_routes example_eval id Disconnected fresh_writer stream_request boom_routes)) 0))
       = calls (Writer (ctx_heap B1 0)) @ [http_Error ''invalid command name'' 500]"
    by blast
  with st1(2) have c1: "calls (Writer (ctx_heap
         (fst (serve_routes example_eval id Disconnected fresh_writer stream_request boom_routes)) 0))
       = [http_Error ''invalid command name'' 500]"
    by simp
  from B st2(1,3) have "ctx_heap (fst (serve_routes example_eval id Disconnected fresh_writer stream_request partial_routes))
      = ctx_heap S2"
    by blast
  with st2(2) have c2: "calls (Writer (ctx_heap
         (fst (serve_routes example_eval id Disconnected fresh_writer stream_request partial_routes)) 0))
       = [WriteHeader 200, Write ''partial'']"
    by simp
  have w1: "\<not> Written (ctx_heap (snd (example_eval ''boom'' B1)) 0)"
    using st1(1) ev1 by (simp add: mkRoute_def)
  have w2: "Written (ctx_heap (snd (example_eval ''respond partial; boom'' B2)) 0)"
    using st2(1) ev2 by (simp add: mkRoute_def)
  from fm1 fm2 w1[unfolded B1_def] w2[unfolded B2_def] c1 c2 show ?thesis by (simp add: n1 n2)
qed


text \<open>
  Claim C7, as the code has it. For a request that matches a route, the handler installs
  the request's context as the ambient one immediately before it submits the route's
  script, and clearing the ambient context is its last step: the check for a held
  connection always precedes it, and so does, for a held request, the wait for the
  connection's end. No clearing happens in between, and the ambient reference is unset
  when the handler returns.
\<close>

theorem C7_ambient_context_order:
  "first_match (GetRoutes s) (ReqMethod r) (URLPath r) = Some (route, params) \<Longrightarrow>
     (\<exists>mid. snd (serve_routes Eval others outcome w r s)
              = [Step_SetRequestContext (Some (ctx_next s)), Step_Eval (Body route)] @ mid
                @ [Step_SetRequestContext None]
           \<and> Step_findConnectionByContext (ctx_next s) \<in> set mid
           \<and> Step_SetRequestContext None \<notin> set mid
           \<and> (\<forall>conn. findConnectionByContext
                        (snd (Eval (Body route)
                               (SetRequestContext (Some (ctx_next s)) (new_context w r params s))))
                        (ctx_next s) = Some conn
                  \<longrightarrow> Step_select conn \<in> set mid))
     \<and> reqCtx (fst (serve_routes Eval others outcome w r s)) = None"
proof -
  assume fm: "first_match (GetRoutes s) (ReqMethod r) (URLPath r) = Some (route, params)"
  obtain err s3 where ev: "Eval (Body route) (SetRequestContext (Some (ctx_next s)) (new_context w r params s)) = (err, s3)"
    by (cases "Eval (Body route) (SetRequestContext (Some (ctx_next s)) (new_context w r params s))")
  note U = serve_routes_unfold[where Eval = Eval and w = w and s = s and r = r and others = others
      and outcome = outcome, OF fm ev]
  let ?s4 = "fst (report_error (ctx_next s) err s3)"
  obtain rest where rest: "snd (await_held Eval others outcome (ctx_next s) ?s4) = Step_findConnectionByContext (ctx_next s) # rest"
    "Step_SetRequestContext None \<notin> set rest"
    "\<forall>conn. findConnectionByContext ?s4 (ctx_next s) = Some conn \<longrightarrow> Step_select conn \<in> set rest"
    using await_held_trace[of Eval others outcome "ctx_next s" ?s4] by blast
  let ?mid = "snd (report_error (ctx_next s) err s3) @ Step_findConnectionByContext (ctx_next s) # rest"
  have a: "snd (serve_routes Eval others outcome w r s)
              = [Step_SetRequestContext (Some (ctx_next s)), Step_Eval (Body route)] @ ?mid
                @ [Step_SetRequestContext None]"
    by (simp add: U rest(1))
  have b: "Step_findConnectionByContext (ctx_next s) \<in> set ?mid" by simp
  have c: "Step_SetRequestContext None \<notin> set ?mid"
    using rest(2) by (auto simp: report_error_trace split: option.splits)
  have d: "\<forall>conn. findConnectionByContext
                        (snd (Eval (Body route)
                               (SetRequestContext (Some (ctx_next s)) (new_context w r params s))))
                        (ctx_next s) = Some conn
                  \<longrightarrow> Step_select conn \<in> set ?mid"
    using rest(3) by (simp add: ev report_error_find)
  have e: "reqCtx (fst (serve_routes Eval others outcome w r s)) = None"
    by (simp add: U SetRequestContext_def)
  from a b c d e show ?thesis by blast
qed


text \<open>A request whose script holds the connection and whose peer then goes away: the
  handler checks for the held connection and waits before it clears the ambient
  context.\<close>

theorem C7_clear_after_held_check_counterexample:
  "\<not> spec_cleared_before_held_check
       (snd (serve_routes example_eval id Disconnected fresh_writer stream_request hold_routes))"
  by (simp add: hold_trace_eval spec_cleared_before_held_check_def is_held_step_def)

theorem C7_ambient_context_order_witness:
  "first_match (GetRoutes hold_routes) (ReqMethod stream_request) (URLPath stream_request)
     = Some (mkRoute ''GET'' ''/chat/stream'' ''connection hold'', Map.empty)
   \<and> findConnectionByContext
         (snd (example_eval (Body (mkRoute ''GET'' ''/chat/stream'' ''connection hold''))
                 (SetRequestContext (Some (ctx_next hold_routes))
                    (new_context fresh_writer stream_request Map.empty hold_routes))))
         (ctx_next hold_routes) = Some 0
   \<and> snd (serve_routes example_eval id Disconnected fresh_writer stream_request hold_routes)
       = [Step_SetRequestContext (Some 0), Step_Eval ''connection hold'']
         @ [Step_findConnectionByContext 0, Step_select 0,
            Step_CloseConnection ''conn-0102030405060708'']
         @ [Step_SetRequestContext None]
   \<and> (\<exists>mid. snd (serve_routes example_eval id Disconnected fresh_writer stream_request hold_routes)
              = [Step_SetRequestContext (Some (ctx_next hold_routes)),
                 Step_Eval (Body (mkRoute ''GET'' ''/chat/stream'' ''connection hold''))] @ mid
                @ [Step_SetRequestContext None]
           \<and> Step_findConnectionByContext (ctx_next hold_routes) \<in> set mid
           \<and> Step_SetRequestContext None \<notin> set mid
           \<and> Step_select 0 \<in> set mid)
   \<and> reqCtx (fst (serve_routes example_eval id Disconnected fresh_writer stream_request hold_routes))
       = None"
proof -
  let ?R = "mkRoute ''GET'' ''/chat/stream'' ''connection hold''"
  have fm: "first_match (GetRoutes hold_routes) (ReqMethod stream_request) (URLPath stream_request)
     = Some (?R, Map.empty)"
    unfolding hold_routes_def by (rule stream_match)
  have held: "findConnectionByContext
         (snd (example_eval (Body ?R)
                 (SetRequestContext (Some (ctx_next hold_routes))
                    (new_context fresh_writer stream_request Map.empty hold_routes))))
         (ctx_next hold_routes) = Some 0"
    by (simp add: findConnectionByContext_def example_eval_def mkRoute_def connection_hold_def
          HoldConnection_def Let_def SetRequestContext_def new_context_def hold_routes_def
          AddRoute_def NewServerState_def)
  note T = C7_ambient_context_order[OF fm, where Eval = example_eval and others = id
      and outcome = Disconnected and w = fresh_writer]
  from T held have ex: "\<exists>mid. snd (serve_routes example_eval id Disconnected fresh_writer stream_request hold_routes)
              = [Step_SetRequestContext (Some (ctx_next hold_routes)),
                 Step_Eval (Body ?R)] @ mid
                @ [Step_SetRequestContext None]
           \<and> Step_findConnectionByContext (ctx_next hold_routes) \<in> set mid
           \<and> Step_SetRequestContext None \<notin> set mid
           \<and> Step_select 0 \<in> set mid"
    by blast
  from T have cl: "reqCtx (fst (serve_routes example_eval id Disconnected fresh_writer stream_request hold_routes)) = None"
    by blast
  from fm held ex cl hold_trace_eval show ?thesis by simp
qed

end
